theory Spec2Isabelle
  imports Main
begin

section \<open>Python values, exceptions and string primitives\<close>

text \<open>
  HawkDB (\<^verbatim>\<open>hawkdb.py\<close>) is a Python program. Its strings are modelled as \<open>string\<close>,
  one \<open>char\<close> per code point, which covers the code points below 256. Every \<^verbatim>\<open>raise\<close>
  of the source and of the library calls it makes is a value of \<open>exn\<close>; a function that
  may raise returns \<open>exn + 'a\<close>, with \<open>Inl\<close> for the exception.
\<close>

datatype exn =
    ValueError
  | RuntimeError
  | TypeError
  | KeyError
  | NoSectionError
  | NoOptionError
  | DuplicateSectionError
  | DuplicateOptionError
  | InterpolationSyntaxError
  | InterpolationMissingOptionError
  | InterpolationDepthError
  | DriverError nat
  | OtherError

text \<open>
  \<open>DriverError errno\<close> stands for \<^verbatim>\<open>mysql.connector.Error\<close> and its subclasses,
  \<open>OtherError\<close> for any exception outside the classes named above.
\<close>

definition is_space :: "char \<Rightarrow> bool" where
  \<comment> \<open>\<^verbatim>\<open>str.isspace\<close> on the code points below 256\<close>
  "is_space c = ((of_char c :: nat) \<in> set [9, 10, 11, 12, 13, 28, 29, 30, 31, 32, 133, 160])"

definition py_strip :: "string \<Rightarrow> string" where
  \<comment> \<open>\<^verbatim>\<open>s.strip()\<close>\<close>
  "py_strip s = rev (dropWhile is_space (rev (dropWhile is_space s)))"

definition is_digit :: "char \<Rightarrow> bool" where
  "is_digit c = (48 \<le> (of_char c :: nat) \<and> (of_char c :: nat) \<le> 57)"

definition digit_val :: "char \<Rightarrow> nat" where
  "digit_val c = (of_char c :: nat) - 48"

definition int_space :: "char \<Rightarrow> bool" where
  \<comment> \<open>the blanks that \<^verbatim>\<open>int()\<close> skips on either side of the literal\<close>
  "int_space c = ((of_char c :: nat) \<in> set [9, 10, 11, 12, 13, 32, 133, 160])"

fun int_digits :: "string \<Rightarrow> string option" where
  \<comment> \<open>the digits of a literal: one underscore is allowed between two digits\<close>
  "int_digits [] = None"
| "int_digits [c] = (if is_digit c then Some [c] else None)"
| "int_digits (c # d # cs) =
     (if is_digit c
      then (if d = CHR ''_'' then map_option ((#) c) (int_digits cs)
            else map_option ((#) c) (int_digits (d # cs)))
      else None)"

definition int_max_str_digits :: nat where
  \<comment> \<open>the default of \<^verbatim>\<open>sys.get_int_max_str_digits()\<close>\<close>
  "int_max_str_digits = 4300"

definition digits_value :: "string \<Rightarrow> nat" where
  "digits_value ds = foldl (\<lambda>a c. 10 * a + digit_val c) 0 ds"

definition py_int :: "string \<Rightarrow> int option" where
  \<comment> \<open>\<^verbatim>\<open>int(s)\<close> in base 10; \<open>None\<close> is its \<^verbatim>\<open>ValueError\<close>\<close>
  "py_int s =
     (let t = rev (dropWhile int_space (rev (dropWhile int_space s)));
          neg = (take 1 t = ''-'');
          body = (if take 1 t = ''-'' \<or> take 1 t = ''+'' then drop 1 t else t)
      in case int_digits body of
           None \<Rightarrow> None
         | Some ds \<Rightarrow>
             if length ds > int_max_str_digits then None
             else Some (if neg then - int (digits_value ds) else int (digits_value ds)))"

definition rsplit1 :: "char \<Rightarrow> string \<Rightarrow> string \<times> string" where
  \<comment> \<open>\<^verbatim>\<open>s.rsplit(sep, 1)\<close> for a string that contains the separator: the text before the
      last separator and the text after it\<close>
  "rsplit1 sep s =
     (rev (drop 1 (dropWhile (\<lambda>c. c \<noteq> sep) (rev s))), rev (takeWhile (\<lambda>c. c \<noteq> sep) (rev s)))"

section \<open>Host and port parsing\<close>

text \<open>
  \<^verbatim>\<open>HawkDBApp._parse_host_port\<close>: the text after the last colon is the port, both
  parts are stripped, and a port that \<^verbatim>\<open>int()\<close> rejects raises \<^verbatim>\<open>ValueError\<close>.
\<close>

definition parse_host_port :: "string \<Rightarrow> exn + (string \<times> int)" where
  "parse_host_port host_str =
     (if CHR '':'' \<in> set host_str
      then (let parts = rsplit1 (CHR '':'') host_str
            in case py_int (py_strip (snd parts)) of
                 Some port \<Rightarrow> Inr (py_strip (fst parts), port)
               | None \<Rightarrow> Inl ValueError)
      else Inr (py_strip host_str, 3306))"

section \<open>Result values and the SQL exporter\<close>

text \<open>
  A result row is a tuple of Python values. \<^verbatim>\<open>DataExporter.to_sql_insert\<close> tells them
  apart by \<^verbatim>\<open>is None\<close> and \<^verbatim>\<open>isinstance\<close>: \<^verbatim>\<open>None\<close>, a \<^verbatim>\<open>str\<close>, a \<^verbatim>\<open>datetime.datetime\<close>,
  a \<^verbatim>\<open>datetime.date\<close>, or a value of any other class. Of the other classes, integers
  and booleans are modelled as such, and \<open>PyObject t\<close> is any further object (float,
  Decimal, bytes, timedelta, ...), given by the text \<open>t\<close> that \<^verbatim>\<open>str()\<close> returns for it.
\<close>

record py_date =
  year :: nat
  month :: nat
  day :: nat

record py_datetime = py_date +
  hour :: nat
  minute :: nat
  second :: nat

datatype other_value =
    PyInt int
  | PyBool bool
  | PyObject string

datatype py_value =
    PyNone
  | PyStr string
  | PyDateTime py_datetime
  | PyDate py_date
  | PyOther other_value

definition digit_char :: "nat \<Rightarrow> char" where
  "digit_char n = ''0123456789'' ! (n mod 10)"

function str_nat :: "nat \<Rightarrow> string" where
  "str_nat n = (if n < 10 then [digit_char n] else str_nat (n div 10) @ [digit_char n])"
  by pat_completeness auto
termination
  by (relation "measure (\<lambda>n. n)") auto

declare str_nat.simps [simp del]

definition str_int :: "int \<Rightarrow> string" where
  "str_int i = (if i < 0 then ''-'' @ str_nat (nat (- i)) else str_nat (nat i))"

fun py_str :: "other_value \<Rightarrow> string" where
  \<comment> \<open>\<^verbatim>\<open>str(value)\<close>\<close>
  "py_str (PyInt i) = str_int i"
| "py_str (PyBool b) = (if b then ''True'' else ''False'')"
| "py_str (PyObject t) = t"

definition pad2 :: "nat \<Rightarrow> string" where
  \<comment> \<open>a field of width two, filled with zeros\<close>
  "pad2 n = (if n < 10 then ''0'' @ str_nat n else str_nat n)"

definition directive :: "py_datetime \<Rightarrow> char \<Rightarrow> string" where
  \<comment> \<open>the directives the exporter uses; \<^verbatim>\<open>%Y\<close> is the year as the C library prints it,
      in decimal with no padding\<close>
  "directive dt d =
     (if d = CHR ''Y'' then str_nat (year dt)
      else if d = CHR ''m'' then pad2 (month dt)
      else if d = CHR ''d'' then pad2 (day dt)
      else if d = CHR ''H'' then pad2 (hour dt)
      else if d = CHR ''M'' then pad2 (minute dt)
      else if d = CHR ''S'' then pad2 (second dt)
      else [CHR ''%'', d])"

fun strftime :: "py_datetime \<Rightarrow> string \<Rightarrow> string" where
  \<comment> \<open>\<^verbatim>\<open>value.strftime(fmt)\<close>\<close>
  "strftime dt [] = []"
| "strftime dt [c] = [c]"
| "strftime dt (c # d # cs) =
     (if c = CHR ''%'' then directive dt d @ strftime dt cs else c # strftime dt (d # cs))"

definition date_strftime :: "py_date \<Rightarrow> string \<Rightarrow> string" where
  \<comment> \<open>\<^verbatim>\<open>date.strftime\<close>: the time fields of a date are zero\<close>
  "date_strftime d fmt =
     strftime \<lparr>year = year d, month = month d, day = day d, hour = 0, minute = 0, second = 0\<rparr> fmt"

function py_replace :: "string \<Rightarrow> string \<Rightarrow> string \<Rightarrow> string" where
  \<comment> \<open>\<^verbatim>\<open>s.replace(old, new)\<close> for a non-empty \<open>old\<close>: the occurrences are found from the
      left and do not overlap\<close>
  "py_replace old new [] = []"
| "py_replace old new (c # cs) =
     (if old \<noteq> [] \<and> take (length old) (c # cs) = old
      then new @ py_replace old new (drop (length old) (c # cs))
      else c # py_replace old new cs)"
  by pat_completeness auto
termination
  by (relation "measure (\<lambda>(old, new, s). length s)") auto

fun py_join :: "string \<Rightarrow> string list \<Rightarrow> string" where
  \<comment> \<open>\<^verbatim>\<open>sep.join(xs)\<close>\<close>
  "py_join sep [] = []"
| "py_join sep [x] = x"
| "py_join sep (x # y # xs) = x @ sep @ py_join sep (y # xs)"

definition quote :: char where
  \<comment> \<open>the single quote\<close>
  "quote = CHR 0x27"

definition format_value :: "py_value \<Rightarrow> string" where
  \<comment> \<open>the \<^verbatim>\<open>if\<close>/\<^verbatim>\<open>elif\<close> chain of the exporter, in the order of the source\<close>
  "format_value v =
     (case v of
        PyNone \<Rightarrow> ''NULL''
      | PyStr s \<Rightarrow> [quote] @ py_replace [quote] [quote, quote] s @ [quote]
      | PyDateTime dt \<Rightarrow> [quote] @ strftime dt ''%Y-%m-%d %H:%M:%S'' @ [quote]
      | PyDate d \<Rightarrow> [quote] @ date_strftime d ''%Y-%m-%d'' @ [quote]
      | PyOther x \<Rightarrow> py_str x)"

definition sql_insert :: "string \<Rightarrow> string \<Rightarrow> py_value list \<Rightarrow> string" where
  \<comment> \<open>the statement written for one record, with its line break\<close>
  "sql_insert table_name columns_str record =
     ''INSERT INTO '' @ table_name @ '' ('' @ columns_str @ '') VALUES ('' @
       py_join '', '' (map format_value record) @ '');'' @ [CHR 0x0A]"

definition to_sql_insert :: "py_value list list \<Rightarrow> string list \<Rightarrow> string \<Rightarrow> string" where
  \<comment> \<open>the text written to the file\<close>
  "to_sql_insert data columns table_name =
     concat (map (sql_insert table_name (py_join '', '' columns)) data)"

text \<open>
  The rendering rules as the specification words them, to be compared with
  \<open>format_value\<close>: \<open>digit_at n k\<close> is the decimal digit of \<open>n\<close> at position \<open>k\<close>, so
  that \<open>yyyy_mm_dd\<close> and \<open>hh_mm_ss\<close> are texts of fixed width.
\<close>

definition digit_at :: "nat \<Rightarrow> nat \<Rightarrow> char" where
  "digit_at n k = digit_char (n div 10 ^ k)"

definition yyyy_mm_dd :: "nat \<Rightarrow> nat \<Rightarrow> nat \<Rightarrow> string" where
  "yyyy_mm_dd y m d =
     [digit_at y 3, digit_at y 2, digit_at y 1, digit_at y 0, CHR ''-'',
      digit_at m 1, digit_at m 0, CHR ''-'', digit_at d 1, digit_at d 0]"

definition hh_mm_ss :: "nat \<Rightarrow> nat \<Rightarrow> nat \<Rightarrow> string" where
  "hh_mm_ss h m s =
     [digit_at h 1, digit_at h 0, CHR '':'', digit_at m 1, digit_at m 0, CHR '':'',
      digit_at s 1, digit_at s 0]"

fun sql_literal_spec :: "py_value \<Rightarrow> string" where
  "sql_literal_spec PyNone = ''NULL''"
| "sql_literal_spec (PyStr s) =
     [quote] @ concat (map (\<lambda>c. if c = quote then [quote, quote] else [c]) s) @ [quote]"
| "sql_literal_spec (PyDateTime dt) =
     [quote] @ yyyy_mm_dd (year dt) (month dt) (day dt) @ '' '' @
       hh_mm_ss (hour dt) (minute dt) (second dt) @ [quote]"
| "sql_literal_spec (PyDate d) = [quote] @ yyyy_mm_dd (year d) (month d) (day d) @ [quote]"
| "sql_literal_spec (PyOther x) = py_str x"

text \<open>
  The dates a result set holds: the fields of a Python date are within the calendar's
  bounds, and the year of a MySQL \<^verbatim>\<open>DATE\<close> or \<^verbatim>\<open>DATETIME\<close> is between 1000 and 9999.
\<close>

definition date_in_range :: "nat \<Rightarrow> nat \<Rightarrow> nat \<Rightarrow> bool" where
  "date_in_range y m d = (1000 \<le> y \<and> y \<le> 9999 \<and> 1 \<le> m \<and> m \<le> 12 \<and> 1 \<le> d \<and> d \<le> 31)"

fun value_in_range :: "py_value \<Rightarrow> bool" where
  "value_in_range (PyDateTime dt) =
     (date_in_range (year dt) (month dt) (day dt) \<and> hour dt < 24 \<and> minute dt < 60 \<and>
      second dt < 60)"
| "value_in_range (PyDate d) = date_in_range (year d) (month d) (day d)"
| "value_in_range v = True"

section \<open>The database session\<close>

text \<open>
  \<^verbatim>\<open>DatabaseConnection\<close> holds a connection handle, a cursor and the flag
  \<^verbatim>\<open>is_connected\<close>. The MySQL driver is the environment of the model: \<open>drv_connect\<close> is
  \<^verbatim>\<open>mysql.connector.connect(**config)\<close>, \<open>drv_cursor\<close> is \<^verbatim>\<open>connection.cursor()\<close>, and
  \<open>drv_execute\<close> is \<^verbatim>\<open>cursor.execute(query)\<close> together with the fetch that follows it, each
  with the exception it may raise. Handles are numbers. In \<open>connection_config\<close> the
  field \<open>ssl_disabled\<close> is \<open>None\<close> while the dictionary has no such key.
\<close>

record connection_config =
  host :: string
  port :: int
  user :: string
  password :: string
  connect_timeout :: nat
  autocommit :: bool
  ssl_disabled :: "bool option"

record query_result =
  description :: "string list option"
  rows :: "py_value list list"

record driver =
  drv_connect :: "connection_config \<Rightarrow> exn + nat"
  drv_cursor :: "nat \<Rightarrow> exn + nat"
  drv_execute :: "nat \<Rightarrow> string \<Rightarrow> exn + query_result"

record session =
  connection :: "nat option"
  cursor :: "nat option"
  is_connected :: bool

definition DatabaseConnection_init :: session where
  "DatabaseConnection_init = \<lparr>connection = None, cursor = None, is_connected = False\<rparr>"

definition is_driver_error :: "exn \<Rightarrow> bool" where
  \<comment> \<open>what \<^verbatim>\<open>except mysql.connector.Error\<close> catches\<close>
  "is_driver_error e = (case e of DriverError errno \<Rightarrow> True | _ \<Rightarrow> False)"

definition disconnect :: "session \<Rightarrow> session" where
  \<comment> \<open>\<^verbatim>\<open>connection.close()\<close> does not raise and returns nothing\<close>
  "disconnect s =
     (if connection s \<noteq> None
      then s\<lparr>connection := None, cursor := None, is_connected := False\<rparr>
      else s)"

definition connection_attempts ::
  "driver \<Rightarrow> connection_config \<Rightarrow> connection_config list \<times> (exn + nat)" where
  \<comment> \<open>the \<^verbatim>\<open>try\<close>/\<^verbatim>\<open>except\<close> of \<^verbatim>\<open>connect\<close>: the configurations handed to the driver, in
      order, and the outcome of the last call\<close>
  "connection_attempts drv connection_config =
     (case drv_connect drv connection_config of
        Inr h \<Rightarrow> ([connection_config], Inr h)
      | Inl e \<Rightarrow>
          if is_driver_error e
          then ([connection_config, connection_config\<lparr>ssl_disabled := Some True\<rparr>],
                drv_connect drv (connection_config\<lparr>ssl_disabled := Some True\<rparr>))
          else ([connection_config], Inl e))"

definition connect ::
  "driver \<Rightarrow> session \<Rightarrow> string \<Rightarrow> string \<Rightarrow> string \<Rightarrow> int \<Rightarrow>
     (exn + bool) \<times> session \<times> connection_config list" where
  \<comment> \<open>the result or the exception, the session afterwards, and the calls made to
      \<^verbatim>\<open>mysql.connector.connect\<close>\<close>
  "connect drv s h u p n =
     (let s1 = (if is_connected s then disconnect s else s);
          connection_config = \<lparr>host = h, port = n, user = u, password = p,
            connect_timeout = 10, autocommit = True, ssl_disabled = None\<rparr>;
          (attempts, outcome) = connection_attempts drv connection_config
      in case outcome of
           Inl e \<Rightarrow> (Inl e, s1, attempts)
         | Inr c \<Rightarrow>
             (let s2 = s1\<lparr>connection := Some c\<rparr>
              in case drv_cursor drv c of
                   Inl e \<Rightarrow> (Inl e, s2, attempts)
                 | Inr cur \<Rightarrow>
                     (let s3 = s2\<lparr>cursor := Some cur\<rparr>
                      in case drv_execute drv cur ''SELECT VERSION()'' of
                           Inl e \<Rightarrow> (Inl e, s3, attempts)
                         | Inr r \<Rightarrow> (Inr True, s3\<lparr>is_connected := True\<rparr>, attempts))))"

definition fetchone :: "query_result \<Rightarrow> py_value list option" where
  "fetchone r = (case rows r of [] \<Rightarrow> None | row # rest \<Rightarrow> Some row)"

definition execute_query ::
  "driver \<Rightarrow> session \<Rightarrow> string \<Rightarrow> exn + (string list \<times> py_value list list)" where
  \<comment> \<open>\<^verbatim>\<open>RuntimeError\<close> is the error of a session that is not connected; a cursor that is
      \<^verbatim>\<open>None\<close> has no \<^verbatim>\<open>execute\<close>, and a description that is \<^verbatim>\<open>None\<close> cannot be iterated\<close>
  "execute_query drv s query =
     (if \<not> is_connected s then Inl RuntimeError
      else case cursor s of
             None \<Rightarrow> Inl OtherError
           | Some cur \<Rightarrow>
               (case drv_execute drv cur query of
                  Inl e \<Rightarrow> Inl e
                | Inr r \<Rightarrow>
                    (case description r of
                       None \<Rightarrow> Inl TypeError
                     | Some column_names \<Rightarrow> Inr (column_names, rows r))))"

definition get_server_info :: "driver \<Rightarrow> session \<Rightarrow> exn + py_value" where
  \<comment> \<open>\<^verbatim>\<open>version[0] if version else "Desconhecida"\<close>: the test is on the row, which is
      false when it is \<^verbatim>\<open>None\<close> or empty\<close>
  "get_server_info drv s =
     (if \<not> is_connected s then Inr PyNone
      else case cursor s of
             None \<Rightarrow> Inl OtherError
           | Some cur \<Rightarrow>
               (case drv_execute drv cur ''SELECT VERSION()'' of
                  Inl e \<Rightarrow> Inl e
                | Inr r \<Rightarrow>
                    (case fetchone r of
                       None \<Rightarrow> Inr (PyStr ''Desconhecida'')
                     | Some [] \<Rightarrow> Inr (PyStr ''Desconhecida'')
                     | Some (v # vs) \<Rightarrow> Inr v)))"

definition session_inv :: "session \<Rightarrow> bool" where
  \<comment> \<open>holds of a new session and is kept by every method\<close>
  "session_inv s = (is_connected s \<longrightarrow> connection s \<noteq> None \<and> cursor s \<noteq> None)"

definition secure_config :: "string \<Rightarrow> string \<Rightarrow> string \<Rightarrow> int \<Rightarrow> connection_config" where
  \<comment> \<open>the configuration of the first attempt of \<open>connect\<close>, which leaves encryption on\<close>
  "secure_config h u p n = \<lparr>host = h, port = n, user = u, password = p,
     connect_timeout = 10, autocommit = True, ssl_disabled = None\<rparr>"

definition example_driver :: "(exn + nat) \<Rightarrow> (exn + query_result) \<Rightarrow> driver" where
  \<comment> \<open>a driver for the examples: every connection attempt has the outcome \<open>c\<close>, every
      statement the reply \<open>r\<close>\<close>
  "example_driver c r =
     \<lparr>drv_connect = (\<lambda>connection_config. c), drv_cursor = (\<lambda>h. Inr 2),
      drv_execute = (\<lambda>cur query. r)\<rparr>"

definition version_reply :: "py_value list list \<Rightarrow> exn + query_result" where
  "version_reply rs = Inr \<lparr>description = Some [''VERSION()''], rows = rs\<rparr>"

section \<open>The configuration parser\<close>

text \<open>
  \<^verbatim>\<open>ConnectionManager\<close> keeps the profiles in a \<^verbatim>\<open>configparser.ConfigParser\<close> and in an ini
  file. The parser is modelled by its two dictionaries, \<^verbatim>\<open>_defaults\<close> and \<^verbatim>\<open>_sections\<close>; a
  Python dictionary is an association list in insertion order. The file is modelled by
  what the parser reads from it: the sequence of its sections, each a header and its
  option lines, with option names and values as the parser normalises them. This covers
  the section names and values that the text format carries unchanged (not empty for a
  name, one line, no surrounding blanks).
\<close>

type_synonym section_dict = "(string \<times> string) list"

type_synonym ini_file = "(string \<times> (string \<times> string) list) list"

record config_parser =
  defaults :: section_dict
  sections :: "(string \<times> section_dict) list"

definition DEFAULTSECT :: string where
  "DEFAULTSECT = ''DEFAULT''"

definition MAX_INTERPOLATION_DEPTH :: nat where
  "MAX_INTERPOLATION_DEPTH = 10"

fun dict_set :: "('k \<times> 'v) list \<Rightarrow> 'k \<Rightarrow> 'v \<Rightarrow> ('k \<times> 'v) list" where
  \<comment> \<open>\<^verbatim>\<open>d[k] = v\<close>: an existing key keeps its place, a new one goes last\<close>
  "dict_set [] k v = [(k, v)]"
| "dict_set ((k', v') # d) k v = (if k' = k then (k, v) # d else (k', v') # dict_set d k v)"

definition dict_del :: "('k \<times> 'v) list \<Rightarrow> 'k \<Rightarrow> ('k \<times> 'v) list" where
  "dict_del d k = filter (\<lambda>kv. fst kv \<noteq> k) d"

definition lower_char :: "char \<Rightarrow> char" where
  \<comment> \<open>\<^verbatim>\<open>str.lower\<close> on the code points below 256\<close>
  "lower_char c =
     (let n = (of_char c :: nat)
      in if (65 \<le> n \<and> n \<le> 90) \<or> (192 \<le> n \<and> n \<le> 222 \<and> n \<noteq> 215) then char_of (n + 32) else c)"

definition optionxform :: "string \<Rightarrow> string" where
  "optionxform optionstr = map lower_char optionstr"

definition keycre_match :: "string \<Rightarrow> (string \<times> nat) option" where
  \<comment> \<open>\<^verbatim>\<open>_KEYCRE.match(s)\<close> for the pattern \<^verbatim>\<open>%\(([^)]+)\)s\<close>: the group and the end of the match\<close>
  "keycre_match s =
     (if take 2 s = ''%(''
      then (let name = takeWhile (\<lambda>c. c \<noteq> CHR '')'') (drop 2 s)
            in if name \<noteq> [] \<and> take 2 (drop (2 + length name) s) = '')s''
               then Some (name, length name + 4)
               else None)
      else None)"

function keycre_sub :: "string \<Rightarrow> string" where
  \<comment> \<open>\<^verbatim>\<open>_KEYCRE.sub('', s)\<close>\<close>
  "keycre_sub [] = []"
| "keycre_sub (c # cs) =
     (case keycre_match (c # cs) of
        Some (name, n) \<Rightarrow> keycre_sub (drop n (c # cs))
      | None \<Rightarrow> c # keycre_sub cs)"
  by pat_completeness auto
termination
  by (relation "measure length") (auto simp: keycre_match_def Let_def split: if_splits)

definition before_set :: "string \<Rightarrow> exn + string" where
  \<comment> \<open>\<^verbatim>\<open>BasicInterpolation.before_set\<close>\<close>
  "before_set v =
     (let tmp_value = keycre_sub (py_replace ''%%'' [] v)
      in if CHR ''%'' \<in> set tmp_value then Inl ValueError else Inr v)"

function interpolate_some ::
  "(string \<Rightarrow> string option) \<Rightarrow> nat \<Rightarrow> string \<Rightarrow> string \<Rightarrow> exn + string" where
  \<comment> \<open>\<^verbatim>\<open>BasicInterpolation._interpolate_some\<close> with the list \<^verbatim>\<open>accum\<close> as the text collected so
      far; the depth does not change within the loop, so testing it at every turn is
      testing it on entry\<close>
  "interpolate_some mp depth accum rest =
     (if depth > MAX_INTERPOLATION_DEPTH then Inl InterpolationDepthError
      else if rest = [] then Inr accum
      else if CHR ''%'' \<notin> set rest then Inr (accum @ rest)
      else
        (let accum1 = accum @ takeWhile (\<lambda>c. c \<noteq> CHR ''%'') rest;
             rest1 = dropWhile (\<lambda>c. c \<noteq> CHR ''%'') rest;
             c = take 1 (drop 1 rest1)
         in if c = ''%'' then interpolate_some mp depth (accum1 @ ''%'') (drop 2 rest1)
            else if c = ''(''
            then (case keycre_match rest1 of
                    None \<Rightarrow> Inl InterpolationSyntaxError
                  | Some (name, n) \<Rightarrow>
                      (case mp (optionxform name) of
                         None \<Rightarrow> Inl InterpolationMissingOptionError
                       | Some v \<Rightarrow>
                           if CHR ''%'' \<in> set v
                           then (case interpolate_some mp (depth + 1) accum1 v of
                                   Inl e \<Rightarrow> Inl e
                                 | Inr accum2 \<Rightarrow>
                                     interpolate_some mp depth accum2 (drop n rest1))
                           else interpolate_some mp depth (accum1 @ v) (drop n rest1)))
            else Inl InterpolationSyntaxError))"
  by pat_completeness auto
termination
proof -
  have shorter: "length (dropWhile (\<lambda>c. c \<noteq> CHR ''%'') rest) - n < length rest"
    if "CHR ''%'' \<in> set rest" and "0 < n" for rest :: string and n :: nat
  proof -
    have "dropWhile (\<lambda>c. c \<noteq> CHR ''%'') rest \<noteq> []"
      using that(1) by (simp add: dropWhile_eq_Nil_conv)
    then have "0 < length (dropWhile (\<lambda>c. c \<noteq> CHR ''%'') rest)"
      by simp
    moreover have "length (dropWhile (\<lambda>c. c \<noteq> CHR ''%'') rest) \<le> length rest"
      by (rule length_dropWhile_le)
    ultimately show ?thesis
      using that(2) by arith
  qed
  have match_end: "0 < n" if "keycre_match s = Some (name, n)" for s name n
    using that by (auto simp: keycre_match_def Let_def split: if_splits)
  show ?thesis
    by (relation "measures [\<lambda>(mp, depth, accum, rest). Suc MAX_INTERPOLATION_DEPTH - depth,
        \<lambda>(mp, depth, accum, rest). length rest]")
      (auto simp: shorter match_end)
qed

declare interpolate_some.simps [simp del]

definition has_section :: "config_parser \<Rightarrow> string \<Rightarrow> bool" where
  "has_section cfg section = (map_of (sections cfg) section \<noteq> None)"

definition contains :: "config_parser \<Rightarrow> string \<Rightarrow> bool" where
  \<comment> \<open>\<^verbatim>\<open>key in config\<close>\<close>
  "contains cfg key = (key = DEFAULTSECT \<or> has_section cfg key)"

definition add_section :: "config_parser \<Rightarrow> string \<Rightarrow> exn + config_parser" where
  "add_section cfg section =
     (if section = DEFAULTSECT then Inl ValueError
      else if has_section cfg section then Inl DuplicateSectionError
      else Inr (cfg\<lparr>sections := sections cfg @ [(section, [])]\<rparr>))"

definition set_option :: "config_parser \<Rightarrow> string \<Rightarrow> string \<Rightarrow> string \<Rightarrow> exn + config_parser" where
  \<comment> \<open>\<^verbatim>\<open>ConfigParser.set(section, option, value)\<close>; an exception leaves the parser as
      it was\<close>
  "set_option cfg section option v =
     (case (if v \<noteq> [] then before_set v else Inr v) of
        Inl e \<Rightarrow> Inl e
      | Inr v' \<Rightarrow>
          if section = [] \<or> section = DEFAULTSECT
          then Inr (cfg\<lparr>defaults := dict_set (defaults cfg) (optionxform option) v'\<rparr>)
          else (case map_of (sections cfg) section of
                  None \<Rightarrow> Inl NoSectionError
                | Some sectdict \<Rightarrow>
                    Inr (cfg\<lparr>sections :=
                      dict_set (sections cfg) section
                        (dict_set sectdict (optionxform option) v')\<rparr>)))"

fun read_dict_keys ::
  "config_parser \<Rightarrow> string \<Rightarrow> string list \<Rightarrow> (string \<times> string) list \<Rightarrow>
     exn option \<times> config_parser" where
  \<comment> \<open>the inner loop of \<^verbatim>\<open>read_dict\<close>; \<open>added\<close> are the keys of \<^verbatim>\<open>elements_added\<close> for this
      section. The parser is changed in place, so it is returned with the exception\<close>
  "read_dict_keys cfg section added [] = (None, cfg)"
| "read_dict_keys cfg section added ((key, v) # keys) =
     (let k = optionxform key
      in if k \<in> set added then (Some DuplicateOptionError, cfg)
         else (case set_option cfg section k v of
                 Inl e \<Rightarrow> (Some e, cfg)
               | Inr cfg' \<Rightarrow> read_dict_keys cfg' section (k # added) keys))"

definition read_dict ::
  "config_parser \<Rightarrow> string \<Rightarrow> (string \<times> string) list \<Rightarrow> exn option \<times> config_parser" where
  \<comment> \<open>\<^verbatim>\<open>read_dict({section: keys})\<close>: nothing was added before, so the exception of
      \<^verbatim>\<open>add_section\<close> is dropped\<close>
  "read_dict cfg section keys =
     (let cfg1 = (case add_section cfg section of Inl e \<Rightarrow> cfg | Inr cfg' \<Rightarrow> cfg')
      in read_dict_keys cfg1 section [] keys)"

definition setitem ::
  "config_parser \<Rightarrow> string \<Rightarrow> (string \<times> string) list \<Rightarrow> exn option \<times> config_parser" where
  \<comment> \<open>\<^verbatim>\<open>config[key] = value\<close> for a dictionary \<open>value\<close> made at the call\<close>
  "setitem cfg key v =
     (let cfg1 =
        (if key = DEFAULTSECT then cfg\<lparr>defaults := []\<rparr>
         else if has_section cfg key then cfg\<lparr>sections := dict_set (sections cfg) key []\<rparr>
         else cfg)
      in read_dict cfg1 key v)"

definition remove_section :: "config_parser \<Rightarrow> string \<Rightarrow> bool \<times> config_parser" where
  "remove_section cfg section =
     (let existed = has_section cfg section
      in if existed then (existed, cfg\<lparr>sections := dict_del (sections cfg) section\<rparr>)
         else (existed, cfg))"

definition write_file :: "config_parser \<Rightarrow> ini_file" where
  \<comment> \<open>\<^verbatim>\<open>config.write(f)\<close>: the default section, when it has options, then the sections\<close>
  "write_file cfg =
     (if defaults cfg \<noteq> [] then [(DEFAULTSECT, defaults cfg)] else []) @ sections cfg"

datatype cursect = InDefaults | InSection string

definition cursect_put :: "config_parser \<Rightarrow> cursect \<Rightarrow> string \<Rightarrow> string \<Rightarrow> config_parser" where
  \<comment> \<open>\<^verbatim>\<open>cursect[optname] = optval\<close>\<close>
  "cursect_put cfg cur optname optval =
     (case cur of
        InDefaults \<Rightarrow> cfg\<lparr>defaults := dict_set (defaults cfg) optname optval\<rparr>
      | InSection sectname \<Rightarrow>
          (case map_of (sections cfg) sectname of
             None \<Rightarrow> cfg
           | Some d \<Rightarrow>
               cfg\<lparr>sections := dict_set (sections cfg) sectname (dict_set d optname optval)\<rparr>))"

fun read_options ::
  "config_parser \<Rightarrow> cursect \<Rightarrow> string \<Rightarrow> (string \<times> string) list \<Rightarrow>
     (string \<times> string) list \<Rightarrow> exn option \<times> config_parser \<times> (string \<times> string) list" where
  \<comment> \<open>the option lines of one section of the file; \<open>added\<close> are the pairs of
      \<^verbatim>\<open>elements_added\<close>\<close>
  "read_options cfg cur sectname added [] = (None, cfg, added)"
| "read_options cfg cur sectname added ((optname, optval) # lines) =
     (if (sectname, optname) \<in> set added then (Some DuplicateOptionError, cfg, added)
      else read_options (cursect_put cfg cur optname optval) cur sectname
             ((sectname, optname) # added) lines)"

fun read_sections ::
  "config_parser \<Rightarrow> string list \<Rightarrow> (string \<times> string) list \<Rightarrow> ini_file \<Rightarrow>
     exn option \<times> config_parser" where
  \<comment> \<open>\<^verbatim>\<open>_read\<close> in strict mode, section by section; \<open>names\<close> are the section names of
      \<^verbatim>\<open>elements_added\<close>\<close>
  "read_sections cfg names added [] = (None, cfg)"
| "read_sections cfg names added ((sectname, lines) # file) =
     (if has_section cfg sectname \<and> sectname \<in> set names then (Some DuplicateSectionError, cfg)
      else
        (let (cfg1, cur, names1) =
           (if has_section cfg sectname then (cfg, InSection sectname, sectname # names)
            else if sectname = DEFAULTSECT then (cfg, InDefaults, names)
            else (cfg\<lparr>sections := sections cfg @ [(sectname, [])]\<rparr>, InSection sectname,
                  sectname # names))
         in case read_options cfg1 cur sectname added lines of
              (Some e, cfg2, added2) \<Rightarrow> (Some e, cfg2)
            | (None, cfg2, added2) \<Rightarrow> read_sections cfg2 names1 added2 file))"

definition read :: "config_parser \<Rightarrow> ini_file option \<Rightarrow> exn option \<times> config_parser" where
  \<comment> \<open>\<^verbatim>\<open>config.read(filename)\<close>: a file that cannot be opened is skipped\<close>
  "read cfg file =
     (case file of None \<Rightarrow> (None, cfg) | Some content \<Rightarrow> read_sections cfg [] [] content)"

definition options :: "config_parser \<Rightarrow> string \<Rightarrow> exn + string list" where
  "options cfg section =
     (case map_of (sections cfg) section of
        None \<Rightarrow> Inl NoSectionError
      | Some d \<Rightarrow>
          Inr (map fst d @ filter (\<lambda>k. k \<notin> set (map fst d)) (map fst (defaults cfg))))"

definition has_option :: "config_parser \<Rightarrow> string \<Rightarrow> string \<Rightarrow> bool" where
  "has_option cfg section option =
     (if section = [] \<or> section = DEFAULTSECT
      then map_of (defaults cfg) (optionxform option) \<noteq> None
      else (case map_of (sections cfg) section of
              None \<Rightarrow> False
            | Some d \<Rightarrow>
                map_of d (optionxform option) \<noteq> None \<or>
                map_of (defaults cfg) (optionxform option) \<noteq> None))"

definition unify_values :: "config_parser \<Rightarrow> string \<Rightarrow> exn + (string \<Rightarrow> string option)" where
  \<comment> \<open>the chain of lookups of \<^verbatim>\<open>_unify_values\<close>: the section, then the defaults\<close>
  "unify_values cfg section =
     (case map_of (sections cfg) section of
        None \<Rightarrow>
          if section \<noteq> DEFAULTSECT then Inl NoSectionError else Inr (map_of (defaults cfg))
      | Some sectiondict \<Rightarrow>
          Inr (\<lambda>k. case map_of sectiondict k of
                      Some v \<Rightarrow> Some v
                    | None \<Rightarrow> map_of (defaults cfg) k))"

definition get_option :: "config_parser \<Rightarrow> string \<Rightarrow> string \<Rightarrow> exn + string" where
  \<comment> \<open>\<^verbatim>\<open>config.get(section, option)\<close>, which interpolates the value\<close>
  "get_option cfg section option =
     (case unify_values cfg section of
        Inl e \<Rightarrow> Inl e
      | Inr d \<Rightarrow>
          (case d (optionxform option) of
             None \<Rightarrow> Inl NoOptionError
           | Some v \<Rightarrow> interpolate_some d 1 [] v))"

fun proxy_items :: "config_parser \<Rightarrow> string \<Rightarrow> string list \<Rightarrow> exn + (string \<times> string) list" where
  \<comment> \<open>\<^verbatim>\<open>SectionProxy.__getitem__\<close> for each key, in order\<close>
  "proxy_items cfg name [] = Inr []"
| "proxy_items cfg name (key # keys) =
     (if \<not> has_option cfg name key then Inl KeyError
      else (case get_option cfg name key of
              Inl e \<Rightarrow> Inl e
            | Inr v \<Rightarrow>
                (case proxy_items cfg name keys of
                   Inl e \<Rightarrow> Inl e
                 | Inr kvs \<Rightarrow> Inr ((key, v) # kvs))))"

definition section_dict :: "config_parser \<Rightarrow> string \<Rightarrow> exn + (string \<times> string) list" where
  \<comment> \<open>\<^verbatim>\<open>dict(config[name])\<close> for a name the parser contains\<close>
  "section_dict cfg name =
     (case (if name \<noteq> DEFAULTSECT then options cfg name else Inr (map fst (defaults cfg))) of
        Inl e \<Rightarrow> Inl e
      | Inr keys \<Rightarrow> proxy_items cfg name keys)"

section \<open>The profile store\<close>

text \<open>
  \<^verbatim>\<open>ConnectionManager\<close>: the parser it keeps in memory and the file behind it, \<open>None\<close>
  while the file does not exist. Writing the file is taken to succeed. A method returns
  its result, or the exception it raises, together with the store afterwards.
\<close>

record connection_manager =
  config :: config_parser
  config_file :: "ini_file option"

definition save_config :: "connection_manager \<Rightarrow> connection_manager" where
  "save_config m = m\<lparr>config_file := Some (write_file (config m))\<rparr>"

definition ensure_config_exists :: "connection_manager \<Rightarrow> exn option \<times> connection_manager" where
  "ensure_config_exists m =
     (if config_file m = None
      then (case setitem (config m) ''DEFAULT'' [] of
              (Some e, cfg1) \<Rightarrow> (Some e, m\<lparr>config := cfg1\<rparr>)
            | (None, cfg1) \<Rightarrow>
                (case setitem cfg1 ''Conexao_Exemplo''
                        [(''host'', []), (''user'', []), (''password'', [])] of
                   (Some e, cfg2) \<Rightarrow> (Some e, m\<lparr>config := cfg2\<rparr>)
                 | (None, cfg2) \<Rightarrow> (None, save_config (m\<lparr>config := cfg2\<rparr>))))
      else (None, m))"

definition ConnectionManager_init :: "ini_file option \<Rightarrow> exn option \<times> connection_manager" where
  \<comment> \<open>\<^verbatim>\<open>ConnectionManager(config_file)\<close> on a file system where the file has the given
      content\<close>
  "ConnectionManager_init file =
     ensure_config_exists \<lparr>config = \<lparr>defaults = [], sections = []\<rparr>, config_file = file\<rparr>"

definition get_connections :: "connection_manager \<Rightarrow> (exn + string list) \<times> connection_manager" where
  "get_connections m =
     (case read (config m) (config_file m) of
        (Some e, cfg) \<Rightarrow> (Inl e, m\<lparr>config := cfg\<rparr>)
      | (None, cfg) \<Rightarrow>
          (Inr (filter (\<lambda>section. section \<noteq> ''DEFAULT'') (map fst (sections cfg))),
           m\<lparr>config := cfg\<rparr>))"

definition save_connection ::
  "connection_manager \<Rightarrow> string \<Rightarrow> string \<Rightarrow> string \<Rightarrow> string \<Rightarrow>
     exn option \<times> connection_manager" where
  "save_connection m name h u p =
     (case setitem (config m) name [(''host'', h), (''user'', u), (''password'', p)] of
        (Some e, cfg) \<Rightarrow> (Some e, m\<lparr>config := cfg\<rparr>)
      | (None, cfg) \<Rightarrow> (None, save_config (m\<lparr>config := cfg\<rparr>)))"

definition load_connection ::
  "connection_manager \<Rightarrow> string \<Rightarrow>
     (exn + (string \<times> string) list option) \<times> connection_manager" where
  "load_connection m name =
     (case read (config m) (config_file m) of
        (Some e, cfg) \<Rightarrow> (Inl e, m\<lparr>config := cfg\<rparr>)
      | (None, cfg) \<Rightarrow>
          (if contains cfg name
           then (case section_dict cfg name of
                   Inl e \<Rightarrow> (Inl e, m\<lparr>config := cfg\<rparr>)
                 | Inr d \<Rightarrow> (Inr (Some d), m\<lparr>config := cfg\<rparr>))
           else (Inr None, m\<lparr>config := cfg\<rparr>)))"

definition delete_connection :: "connection_manager \<Rightarrow> string \<Rightarrow> (exn + bool) \<times> connection_manager" where
  "delete_connection m name =
     (case read (config m) (config_file m) of
        (Some e, cfg) \<Rightarrow> (Inl e, m\<lparr>config := cfg\<rparr>)
      | (None, cfg) \<Rightarrow>
          (if contains cfg name
           then (Inr True, save_config (m\<lparr>config := snd (remove_section cfg name)\<rparr>))
           else (Inr False, m\<lparr>config := cfg\<rparr>)))"

section \<open>Properties of host and port parsing\<close>

lemma rsplit1_append:
  assumes "sep \<notin> set p"
  shows "rsplit1 sep (h @ sep # p) = (h, p)"
proof -
  have all: "\<And>x. x \<in> set (rev p) \<Longrightarrow> x \<noteq> sep"
    using assms by auto
  have d: "dropWhile (\<lambda>c. c \<noteq> sep) (rev p @ sep # rev h) = sep # rev h"
    by (subst dropWhile_append2) (use all in auto)
  have t: "takeWhile (\<lambda>c. c \<noteq> sep) (rev p @ sep # rev h) = rev p"
    by (subst takeWhile_append2) (use all in auto)
  show ?thesis
    unfolding rsplit1_def using d t by simp
qed

text \<open>
  C3, as stated: parsing \<open>host:port\<close> yields exactly \<open>(host, port)\<close>, and an input
  with no colon yields \<open>(host, 3306)\<close>. The source strips the host, so this fails for
  an input whose host part carries surrounding blanks: \<^verbatim>\<open>" h:80"\<close> gives \<^verbatim>\<open>("h", 80)\<close>,
  and \<^verbatim>\<open>"h "\<close> gives \<^verbatim>\<open>("h", 3306)\<close>.
\<close>

theorem parse_host_port_exact_counterexample:
  "parse_host_port '' h:80'' \<noteq> Inr ('' h'', 80) \<and>
   parse_host_port ''h '' \<noteq> Inr (''h '', 3306)"
  by (simp add: parse_host_port_def rsplit1_def py_int_def py_strip_def is_space_def
      int_space_def is_digit_def digits_value_def digit_val_def int_max_str_digits_def)

text \<open>
  C3, amended: for every input \<open>host:port\<close> whose port segment (the text after the last
  colon), once stripped, is accepted by \<^verbatim>\<open>int()\<close> with value \<open>n\<close>, parsing yields the
  host stripped of surrounding blanks together with \<open>n\<close>; for every input with no colon
  it yields the stripped input together with 3306; and for every input whose port
  segment, once stripped, is rejected by \<^verbatim>\<open>int()\<close> it fails with \<^verbatim>\<open>ValueError\<close>, never
  defaulting.
\<close>

theorem parse_host_port_stripped:
  "(CHR '':'' \<notin> set p \<and> py_int (py_strip p) = Some n \<longrightarrow>
      parse_host_port (h @ '':'' @ p) = Inr (py_strip h, n)) \<and>
   (CHR '':'' \<notin> set s \<longrightarrow> parse_host_port s = Inr (py_strip s, 3306)) \<and>
   (CHR '':'' \<notin> set q \<and> py_int (py_strip q) = None \<longrightarrow>
      parse_host_port (g @ '':'' @ q) = Inl ValueError)"
proof (intro conjI impI)
  assume a: "CHR '':'' \<notin> set p \<and> py_int (py_strip p) = Some n"
  then have "rsplit1 (CHR '':'') (h @ '':'' @ p) = (h, p)"
    using rsplit1_append [of "CHR '':''" p h] by simp
  with a show "parse_host_port (h @ '':'' @ p) = Inr (py_strip h, n)"
    by (simp add: parse_host_port_def)
next
  assume "CHR '':'' \<notin> set s"
  then show "parse_host_port s = Inr (py_strip s, 3306)"
    by (simp add: parse_host_port_def)
next
  assume a: "CHR '':'' \<notin> set q \<and> py_int (py_strip q) = None"
  then have "rsplit1 (CHR '':'') (g @ '':'' @ q) = (g, q)"
    using rsplit1_append [of "CHR '':''" q g] by simp
  with a show "parse_host_port (g @ '':'' @ q) = Inl ValueError"
    by (simp add: parse_host_port_def)
qed

theorem parse_host_port_stripped_witness:
  "(CHR '':'' \<notin> set '' 3307 '' \<and> py_int (py_strip '' 3307 '') = Some 3307) \<and>
   parse_host_port ('' db.local '' @ '':'' @ '' 3307 '') = Inr (''db.local'', 3307) \<and>
   CHR '':'' \<notin> set '' db.local'' \<and>
   parse_host_port '' db.local'' = Inr (''db.local'', 3306) \<and>
   (CHR '':'' \<notin> set ''33o7'' \<and> py_int (py_strip ''33o7'') = None) \<and>
   parse_host_port (''db.local'' @ '':'' @ ''33o7'') = Inl ValueError"
  using parse_host_port_stripped
    [where p = "'' 3307 ''" and n = 3307 and h = "'' db.local ''" and s = "'' db.local''"
       and q = "''33o7''" and g = "''db.local''"]
  by (simp add: parse_host_port_def rsplit1_def py_int_def py_strip_def is_space_def
      int_space_def is_digit_def digits_value_def digit_val_def int_max_str_digits_def)

section \<open>Properties of the SQL exporter\<close>

lemma str_nat_small: "n < 10 \<Longrightarrow> str_nat n = [digit_char n]"
  by (simp add: str_nat.simps [of n])

lemma str_nat_step: "\<not> n < 10 \<Longrightarrow> str_nat n = str_nat (n div 10) @ [digit_char n]"
  by (simp add: str_nat.simps [of n])

lemma pad2_digits: "n < 100 \<Longrightarrow> pad2 n = [digit_at n 1, digit_at n 0]"
  by (simp add: pad2_def digit_at_def str_nat_small str_nat_step digit_char_def)

lemma str_nat_year:
  assumes "1000 \<le> n" "n \<le> 9999"
  shows "str_nat n = [digit_at n 3, digit_at n 2, digit_at n 1, digit_at n 0]"
proof -
  have a: "\<not> n < 10" "\<not> n div 10 < 10" "\<not> n div 10 div 10 < 10" "n div 10 div 10 div 10 < 10"
    using assms by auto
  have d1: "n div 10 div 10 = n div 100"
    using div_mult2_eq [of n 10 10] by simp
  have d2: "n div 100 div 10 = n div 1000"
    using div_mult2_eq [of n 100 10] by simp
  have "str_nat n = [digit_char (n div 10 div 10 div 10), digit_char (n div 10 div 10),
      digit_char (n div 10), digit_char n]"
    using a by (simp add: str_nat_step str_nat_small)
  then show ?thesis
    by (simp add: digit_at_def d1 d2)
qed

lemma py_replace_quote:
  "py_replace [q] [q, q] s = concat (map (\<lambda>c. if c = q then [q, q] else [c]) s)"
  by (induction s) auto

lemma strftime_datetime:
  assumes "date_in_range (year dt) (month dt) (day dt)" "hour dt < 24" "minute dt < 60" "second dt < 60"
  shows "strftime dt ''%Y-%m-%d %H:%M:%S'' =
     yyyy_mm_dd (year dt) (month dt) (day dt) @ '' '' @ hh_mm_ss (hour dt) (minute dt) (second dt)"
  using assms
  by (simp add: directive_def yyyy_mm_dd_def hh_mm_ss_def date_in_range_def pad2_digits str_nat_year)

lemma strftime_date:
  assumes "date_in_range (year d) (month d) (day d)"
  shows "date_strftime d ''%Y-%m-%d'' = yyyy_mm_dd (year d) (month d) (day d)"
  using assms
  by (simp add: date_strftime_def directive_def yyyy_mm_dd_def date_in_range_def pad2_digits str_nat_year)

lemma format_value_spec: "value_in_range v \<Longrightarrow> format_value v = sql_literal_spec v"
  by (cases v)
    (simp_all add: format_value_def py_replace_quote strftime_datetime strftime_date
      del: strftime.simps)

text \<open>
  C1, as stated: every datetime is rendered as YYYY-MM-DD HH:MM:SS and every date as
  YYYY-MM-DD. \<^verbatim>\<open>strftime\<close> prints the year in decimal with no padding, so a year below 1000
  has fewer than four digits: the date of the second of January 999 is rendered as
  \<^verbatim>\<open>'999-01-02'\<close>, the datetime likewise, while the format of the claim is \<^verbatim>\<open>'0999-01-02'\<close>.
\<close>

theorem to_sql_insert_short_year_counterexample:
  "to_sql_insert
     [[PyDate \<lparr>year = 999, month = 1, day = 2\<rparr>,
       PyDateTime \<lparr>year = 999, month = 1, day = 2, hour = 3, minute = 4, second = 5\<rparr>]]
     [''born'', ''seen''] ''t'' =
     ''INSERT INTO t (born, seen) VALUES ('' @ [quote] @ ''999-01-02'' @ [quote] @ '', '' @
       [quote] @ ''999-01-02 03:04:05'' @ [quote] @ '');'' @ [CHR 0x0A] \<and>
   sql_literal_spec (PyDate \<lparr>year = 999, month = 1, day = 2\<rparr>) =
     [quote] @ ''0999-01-02'' @ [quote] \<and>
   format_value (PyDate \<lparr>year = 999, month = 1, day = 2\<rparr>) \<noteq>
     sql_literal_spec (PyDate \<lparr>year = 999, month = 1, day = 2\<rparr>) \<and>
   format_value
     (PyDateTime \<lparr>year = 999, month = 1, day = 2, hour = 3, minute = 4, second = 5\<rparr>) \<noteq>
   sql_literal_spec
     (PyDateTime \<lparr>year = 999, month = 1, day = 2, hour = 3, minute = 4, second = 5\<rparr>)"
  by code_simp

text \<open>
  C1, amended: for every result set whose dates and datetimes have a year of four digits
  (1000 to 9999, the range of MySQL's \<^verbatim>\<open>DATE\<close> and \<^verbatim>\<open>DATETIME\<close>; the other fields are within
  the bounds that Python's classes impose) and for every table name, \<^verbatim>\<open>to_sql_insert\<close> writes
  one statement per record in which each value is rendered by its type: \<^verbatim>\<open>None\<close> as the
  unquoted word NULL; a string between single quotes, each single quote of it doubled and
  every other character (a backslash too) left as it is; a datetime between single quotes
  as YYYY-MM-DD HH:MM:SS; a date between single quotes as YYYY-MM-DD; any other value as
  the text \<^verbatim>\<open>str()\<close> gives, unquoted.
\<close>

theorem to_sql_insert_renders_by_type:
  assumes "\<forall>record \<in> set data. \<forall>v \<in> set record. value_in_range v"
  shows "to_sql_insert data columns table_name =
     concat (map (\<lambda>record. ''INSERT INTO '' @ table_name @ '' ('' @ py_join '', '' columns @
         '') VALUES ('' @ py_join '', '' (map sql_literal_spec record) @ '');'' @ [CHR 0x0A]) data)"
proof -
  have "map format_value r = map sql_literal_spec r" if "r \<in> set data" for r
    using that assms by (simp add: format_value_spec)
  then show ?thesis
    by (simp add: to_sql_insert_def sql_insert_def cong: map_cong)
qed


theorem to_sql_insert_renders_by_type_witness:
  "value_in_range
     (PyDateTime \<lparr>year = 2024, month = 3, day = 5, hour = 13, minute = 45, second = 0\<rparr>) \<and>
   value_in_range (PyDate \<lparr>year = 2024, month = 3, day = 5\<rparr>) \<and>
   to_sql_insert [[PyStr (''O'' @ [quote] @ ''Brien''), PyNone,
        PyDateTime \<lparr>year = 2024, month = 3, day = 5, hour = 13, minute = 45, second = 0\<rparr>,
        PyDate \<lparr>year = 2024, month = 3, day = 5\<rparr>, PyOther (PyInt 7),
        PyStr [CHR ''a'', CHR 0x5C, CHR ''b'']]]
      [''name'', ''nick'', ''seen'', ''born'', ''n'', ''path''] ''t'' =
     ''INSERT INTO t (name, nick, seen, born, n, path) VALUES ('' @
       [quote] @ ''O'' @ [quote, quote] @ ''Brien'' @ [quote] @ '', NULL, '' @
       [quote] @ ''2024-03-05 13:45:00'' @ [quote] @ '', '' @
       [quote] @ ''2024-03-05'' @ [quote] @ '', 7, '' @
       [quote, CHR ''a'', CHR 0x5C, CHR ''b'', quote] @ '');'' @ [CHR 0x0A]"
  using to_sql_insert_renders_by_type
    [of "[[PyStr (''O'' @ [quote] @ ''Brien''), PyNone,
        PyDateTime \<lparr>year = 2024, month = 3, day = 5, hour = 13, minute = 45, second = 0\<rparr>,
        PyDate \<lparr>year = 2024, month = 3, day = 5\<rparr>, PyOther (PyInt 7),
        PyStr [CHR ''a'', CHR 0x5C, CHR ''b'']]]"
      "[''name'', ''nick'', ''seen'', ''born'', ''n'', ''path'']" "''t''"]
  by (simp add: quote_def yyyy_mm_dd_def hh_mm_ss_def digit_at_def digit_char_def
      date_in_range_def str_int_def str_nat_small)

section \<open>Properties of the database session\<close>

lemma connection_attempts_cases:
  "connection_attempts drv c =
     (if (\<exists>errno. drv_connect drv c = Inl (DriverError errno))
      then ([c, c\<lparr>ssl_disabled := Some True\<rparr>], drv_connect drv (c\<lparr>ssl_disabled := Some True\<rparr>))
      else ([c], drv_connect drv c))"
  by (auto simp: connection_attempts_def is_driver_error_def split: sum.splits exn.splits)

lemma session_inv_init: "session_inv DatabaseConnection_init"
  by (simp add: session_inv_def DatabaseConnection_init_def)

lemma session_inv_disconnect: "session_inv s \<Longrightarrow> session_inv (disconnect s)"
  by (auto simp: session_inv_def disconnect_def)

lemma disconnect_not_connected: "session_inv s \<Longrightarrow> \<not> is_connected (disconnect s)"
  by (auto simp: session_inv_def disconnect_def)

lemma session_inv_connect: "session_inv s \<Longrightarrow> session_inv (fst (snd (connect drv s h u p n)))"
  by (auto simp: connect_def Let_def session_inv_def disconnect_def split: prod.splits sum.splits)

lemma connect_failure_flag:
  "session_inv s \<Longrightarrow> connect drv s h u p n = (Inl e, s', a) \<Longrightarrow> \<not> is_connected s'"
  by (auto simp: connect_def Let_def session_inv_def disconnect_def split: prod.splits sum.splits if_splits)


lemma connect_attempts:
  "snd (snd (connect drv s h u p n)) = fst (connection_attempts drv (secure_config h u p n))"
  by (simp add: connect_def Let_def secure_config_def split: prod.splits sum.splits)

lemma connect_handshake_failure:
  "snd (connection_attempts drv (secure_config h u p n)) = Inl e \<Longrightarrow>
   fst (connect drv s h u p n) = Inl e"
  by (auto simp: connect_def Let_def secure_config_def split: prod.splits sum.splits)

text \<open>
  C2: every call of \<open>connect\<close> first attempts the connection with encryption left on; if
  the driver fails that attempt with an error of its own, whatever the error (wrong
  credentials, \<open>errno\<close> 1045, included), \<open>connect\<close> makes exactly one more attempt, with
  \<^verbatim>\<open>ssl_disabled\<close> set, and the failure of that second attempt is the failure of
  \<open>connect\<close>; there are never more than two attempts, and a first attempt that does not
  fail with a driver error is the only one.
\<close>

theorem connect_retries_once_insecure:
  "(\<exists>rest. snd (snd (connect drv s h u p n)) = secure_config h u p n # rest) \<and>
   (drv_connect drv (secure_config h u p n) = Inl (DriverError errno) \<longrightarrow>
      snd (snd (connect drv s h u p n)) =
        [secure_config h u p n, (secure_config h u p n)\<lparr>ssl_disabled := Some True\<rparr>]) \<and>
   (drv_connect drv (secure_config h u p n) = Inl (DriverError errno) \<and>
    drv_connect drv ((secure_config h u p n)\<lparr>ssl_disabled := Some True\<rparr>) = Inl e \<longrightarrow>
      fst (connect drv s h u p n) = Inl e) \<and>
   ((\<forall>k. drv_connect drv (secure_config h u p n) \<noteq> Inl (DriverError k)) \<longrightarrow>
      snd (snd (connect drv s h u p n)) = [secure_config h u p n]) \<and>
   length (snd (snd (connect drv s h u p n))) \<le> 2"
  by (auto simp: connect_attempts connect_handshake_failure connection_attempts_cases)

theorem connect_retries_once_insecure_witness:
  "drv_connect (example_driver (Inl (DriverError 1045)) (Inl OtherError))
      (secure_config ''db'' ''root'' ''pw'' 3306) = Inl (DriverError 1045) \<and>
   snd (snd (connect (example_driver (Inl (DriverError 1045)) (Inl OtherError))
      DatabaseConnection_init ''db'' ''root'' ''pw'' 3306)) =
     [secure_config ''db'' ''root'' ''pw'' 3306,
      (secure_config ''db'' ''root'' ''pw'' 3306)\<lparr>ssl_disabled := Some True\<rparr>] \<and>
   fst (connect (example_driver (Inl (DriverError 1045)) (Inl OtherError))
      DatabaseConnection_init ''db'' ''root'' ''pw'' 3306) = Inl (DriverError 1045) \<and>
   snd (snd (connect (example_driver (Inr 1) (version_reply [[PyStr ''8.0.36'']]))
      DatabaseConnection_init ''db'' ''root'' ''pw'' 3306)) =
     [secure_config ''db'' ''root'' ''pw'' 3306]"
  using connect_retries_once_insecure
    [of "example_driver (Inl (DriverError 1045)) (Inl OtherError)" DatabaseConnection_init
      "''db''" "''root''" "''pw''" 3306 1045 "DriverError 1045"]
    connect_retries_once_insecure
    [of "example_driver (Inr 1) (version_reply [[PyStr ''8.0.36'']])" DatabaseConnection_init
      "''db''" "''root''" "''pw''" 3306 0 OtherError]
  by (simp add: example_driver_def)

text \<open>
  What does hold when \<open>connect\<close> fails: the flag \<^verbatim>\<open>is_connected\<close> is false afterwards, a
  query is refused as not connected and the server information is \<^verbatim>\<open>None\<close>.
\<close>

lemma connect_failure_not_connected:
  assumes "session_inv s" and "connect drv s h u p n = (Inl e, s', a)"
  shows "\<not> is_connected s' \<and> execute_query drv' s' query = Inl RuntimeError \<and>
    get_server_info drv' s' = Inr PyNone"
  using connect_failure_flag [OF assms]
  by (simp add: execute_query_def get_server_info_def)


text \<open>
  C8: \<open>execute_query\<close> fails with the not-connected error (\<^verbatim>\<open>RuntimeError\<close>) whenever the
  session is not connected; in particular it does so after \<open>connect\<close>, whatever its
  outcome, followed by \<open>disconnect\<close>.
\<close>

theorem execute_query_not_connected:
  "(\<not> is_connected s \<longrightarrow> execute_query drv s query = Inl RuntimeError) \<and>
   (session_inv s \<longrightarrow>
      execute_query drv' (disconnect (fst (snd (connect drv s h u p n)))) query = Inl RuntimeError)"
  using disconnect_not_connected [OF session_inv_connect, of s drv h u p n]
  by (simp add: execute_query_def)

theorem execute_query_not_connected_witness:
  "fst (connect (example_driver (Inr 1) (version_reply [[PyStr ''8.0.36'']]))
      DatabaseConnection_init ''db'' ''root'' ''pw'' 3306) = Inr True \<and>
   execute_query (example_driver (Inr 1) (version_reply [[PyStr ''8.0.36'']]))
     (disconnect (fst (snd (connect (example_driver (Inr 1) (version_reply [[PyStr ''8.0.36'']]))
        DatabaseConnection_init ''db'' ''root'' ''pw'' 3306)))) ''SELECT 1'' = Inl RuntimeError \<and>
   execute_query (example_driver (Inr 1) (version_reply [[PyStr ''8.0.36'']]))
     DatabaseConnection_init ''SELECT 1'' = Inl RuntimeError"
  using execute_query_not_connected
    [where s = DatabaseConnection_init
       and drv = "example_driver (Inr 1) (version_reply [[PyStr ''8.0.36'']])"
       and drv' = "example_driver (Inr 1) (version_reply [[PyStr ''8.0.36'']])"
       and query = "''SELECT 1''" and h = "''db''" and u = "''root''" and p = "''pw''"
       and n = 3306]
  by (simp add: connect_def connection_attempts_def disconnect_def execute_query_def
      session_inv_def DatabaseConnection_init_def example_driver_def version_reply_def)

text \<open>
  C9, as stated: the marker is returned whenever the server returns an empty value.
  The source tests the row, not the value in it: a connected session whose server
  answers the version request with the empty string gets the empty string.
\<close>

theorem get_server_info_empty_counterexample:
  "is_connected (fst (snd (connect (example_driver (Inr 1) (version_reply [[PyStr '''']]))
      DatabaseConnection_init ''db'' ''root'' ''pw'' 3306))) \<and>
   get_server_info (example_driver (Inr 1) (version_reply [[PyStr '''']]))
     (fst (snd (connect (example_driver (Inr 1) (version_reply [[PyStr '''']]))
        DatabaseConnection_init ''db'' ''root'' ''pw'' 3306))) = Inr (PyStr '''') \<and>
   get_server_info (example_driver (Inr 1) (version_reply [[PyStr '''']]))
     (fst (snd (connect (example_driver (Inr 1) (version_reply [[PyStr '''']]))
        DatabaseConnection_init ''db'' ''root'' ''pw'' 3306))) \<noteq> Inr (PyStr ''Desconhecida'')"
  by (simp add: connect_def connection_attempts_def get_server_info_def fetchone_def
      DatabaseConnection_init_def example_driver_def version_reply_def)

text \<open>
  C9, amended: \<open>get_server_info\<close> returns \<^verbatim>\<open>None\<close> when the session is not connected; when it
  is connected and the server answers the version request with a row whose first value
  is a string, it returns that string, an empty one included; it returns the marker
  \<^verbatim>\<open>"Desconhecida"\<close> (unknown) when the server answers with no row.
\<close>

theorem get_server_info_cases:
  "(\<not> is_connected s \<longrightarrow> get_server_info drv s = Inr PyNone) \<and>
   (is_connected s \<and> cursor s = Some cur \<and> drv_execute drv cur ''SELECT VERSION()'' = Inr r \<and>
      rows r = (PyStr version # vs) # rest \<longrightarrow> get_server_info drv s = Inr (PyStr version)) \<and>
   (is_connected s \<and> cursor s = Some cur \<and> drv_execute drv cur ''SELECT VERSION()'' = Inr r \<and>
      rows r = [] \<longrightarrow> get_server_info drv s = Inr (PyStr ''Desconhecida''))"
  by (simp add: get_server_info_def fetchone_def)

theorem get_server_info_cases_witness:
  "get_server_info (example_driver (Inr 1) (version_reply [[PyStr ''8.0.36'']]))
      DatabaseConnection_init = Inr PyNone \<and>
   get_server_info (example_driver (Inr 1) (version_reply [[PyStr ''8.0.36'']]))
      \<lparr>connection = Some 1, cursor = Some 2, is_connected = True\<rparr> = Inr (PyStr ''8.0.36'') \<and>
   get_server_info (example_driver (Inr 1) (version_reply []))
      \<lparr>connection = Some 1, cursor = Some 2, is_connected = True\<rparr> = Inr (PyStr ''Desconhecida'')"
  using get_server_info_cases
    [of DatabaseConnection_init "example_driver (Inr 1) (version_reply [[PyStr ''8.0.36'']])"]
    get_server_info_cases
    [of "\<lparr>connection = Some 1, cursor = Some 2, is_connected = True\<rparr>"
      "example_driver (Inr 1) (version_reply [[PyStr ''8.0.36'']])" 2
      "\<lparr>description = Some [''VERSION()''], rows = [[PyStr ''8.0.36'']]\<rparr>" "''8.0.36''" "[]" "[]"]
    get_server_info_cases
    [of "\<lparr>connection = Some 1, cursor = Some 2, is_connected = True\<rparr>"
      "example_driver (Inr 1) (version_reply [])" 2
      "\<lparr>description = Some [''VERSION()''], rows = []\<rparr>"]
  by (simp add: DatabaseConnection_init_def example_driver_def version_reply_def)

section \<open>Properties of the profile store\<close>

text \<open>
  The parser never holds a section named \<^verbatim>\<open>DEFAULT\<close>: \<open>add_section\<close> refuses the name and
  \<open>read\<close> sends that header to the defaults. Every method of the store keeps it so.
\<close>

lemma map_of_dict_set: "map_of (dict_set d k v) = (map_of d)(k \<mapsto> v)"
  by (induction d) auto

lemma has_section_cursect_put:
  "has_section (cursect_put cfg cur k v) name = has_section cfg name"
  by (auto simp: cursect_put_def has_section_def map_of_dict_set split: cursect.splits option.splits)

lemma has_section_read_options:
  "has_section (fst (snd (read_options cfg cur sectname added lines))) name = has_section cfg name"
  by (induction cfg cur sectname added lines rule: read_options.induct)
    (simp_all add: has_section_cursect_put)

lemma has_section_append:
  "has_section (cfg\<lparr>sections := sections cfg @ [(sectname, [])]\<rparr>) name =
     (has_section cfg name \<or> name = sectname)"
  by (auto simp: has_section_def map_add_def split: option.splits)

lemma read_sections_no_default:
  "\<not> has_section cfg ''DEFAULT'' \<Longrightarrow>
   \<not> has_section (snd (read_sections cfg names added content)) ''DEFAULT''"
proof (induction content arbitrary: cfg names added)
  case Nil
  then show ?case by simp
next
  case (Cons block content)
  obtain sectname lines where b: "block = (sectname, lines)"
    by (cases block)
  show ?case
  proof (cases "has_section cfg sectname \<and> sectname \<in> set names")
    case True
    with Cons.prems b show ?thesis by simp
  next
    case False
    define st where "st =
      (if has_section cfg sectname then (cfg, InSection sectname, sectname # names)
       else if sectname = DEFAULTSECT then (cfg, InDefaults, names)
       else (cfg\<lparr>sections := sections cfg @ [(sectname, [])]\<rparr>, InSection sectname,
             sectname # names))"
    obtain cfg1 cur names1 where st1: "st = (cfg1, cur, names1)"
      by (cases st)
    have n1: "\<not> has_section cfg1 ''DEFAULT''"
      using Cons.prems st1
      by (auto simp: st_def has_section_append DEFAULTSECT_def split: if_splits)
    obtain e cfg2 added2 where ro: "read_options cfg1 cur sectname added lines = (e, cfg2, added2)"
      by (cases "read_options cfg1 cur sectname added lines")
    have n2: "\<not> has_section cfg2 ''DEFAULT''"
      using n1 has_section_read_options [of cfg1 cur sectname added lines "''DEFAULT''"] ro
      by simp
    show ?thesis
      using False b st1 ro n2 Cons.prems Cons.IH [OF n2, of names1 added2]
      by (cases e) (simp_all add: st_def [symmetric])
  qed
qed

lemma read_no_default:
  "\<not> has_section cfg ''DEFAULT'' \<Longrightarrow> \<not> has_section (snd (read cfg content)) ''DEFAULT''"
  by (cases content) (simp_all add: read_def read_sections_no_default)


lemma has_section_dict_set:
  "has_section (cfg\<lparr>sections := dict_set (sections cfg) k d\<rparr>) name =
     (has_section cfg name \<or> name = k)"
  by (auto simp: has_section_def map_of_dict_set)

lemma has_section_defaults:
  "has_section (cfg\<lparr>defaults := d\<rparr>) name = has_section cfg name"
  by (simp add: has_section_def)

lemma has_section_set_option:
  assumes "set_option cfg sec opt v = Inr cfg'"
  shows "has_section cfg' name = has_section cfg name"
proof (cases "sec = [] \<or> sec = DEFAULTSECT")
  case True
  with assms show ?thesis
    by (auto simp: set_option_def has_section_defaults split: sum.splits if_splits)
next
  case False
  with assms obtain v' d where
    d: "map_of (sections cfg) sec = Some d" and
    c: "cfg' = cfg\<lparr>sections := dict_set (sections cfg) sec (dict_set d (optionxform opt) v')\<rparr>"
    by (auto simp: set_option_def split: sum.splits if_splits option.splits)
  from d have "has_section cfg sec"
    by (simp add: has_section_def)
  then show ?thesis
    unfolding c by (auto simp: has_section_dict_set)
qed

lemma has_section_read_dict_keys:
  "has_section (snd (read_dict_keys cfg sec added keys)) name = has_section cfg name"
proof (induction cfg sec added keys rule: read_dict_keys.induct)
  case (1 cfg sec added)
  then show ?case by simp
next
  case (2 cfg sec added key v keys)
  then show ?case
    by (auto simp: Let_def has_section_set_option split: sum.splits)
qed

lemma setitem_no_default:
  "\<not> has_section cfg ''DEFAULT'' \<Longrightarrow> \<not> has_section (snd (setitem cfg key v)) ''DEFAULT''"
  by (auto simp: setitem_def read_dict_def add_section_def has_section_read_dict_keys
      has_section_dict_set has_section_append has_section_defaults DEFAULTSECT_def Let_def
      split: sum.splits if_splits)

lemma remove_section_no_default:
  "\<not> has_section cfg ''DEFAULT'' \<Longrightarrow> \<not> has_section (snd (remove_section cfg name)) ''DEFAULT''"
  by (auto simp: remove_section_def has_section_def dict_del_def Let_def map_of_eq_None_iff)

lemma ConnectionManager_init_no_default:
  "\<not> has_section (config (snd (ConnectionManager_init content))) ''DEFAULT''"
proof -
  have e: "\<not> has_section \<lparr>defaults = [], sections = []\<rparr> ''DEFAULT''"
    by (simp add: has_section_def)
  show ?thesis
    using setitem_no_default [OF e, of "''DEFAULT''" "[]"]
      setitem_no_default [OF setitem_no_default [OF e, of "''DEFAULT''" "[]"],
        of "''Conexao_Exemplo''" "[(''host'', []), (''user'', []), (''password'', [])]"]
    by (auto simp: ConnectionManager_init_def ensure_config_exists_def save_config_def
        has_section_def split: prod.splits option.splits)
qed

lemma save_connection_no_default:
  "\<not> has_section (config m) ''DEFAULT'' \<Longrightarrow>
   \<not> has_section (config (snd (save_connection m name h u p))) ''DEFAULT''"
  using setitem_no_default [of "config m" name "[(''host'', h), (''user'', u), (''password'', p)]"]
  by (auto simp: save_connection_def save_config_def split: prod.splits option.splits)

lemma delete_connection_no_default:
  "\<not> has_section (config m) ''DEFAULT'' \<Longrightarrow>
   \<not> has_section (config (snd (delete_connection m name))) ''DEFAULT''"
  using read_no_default [of "config m" "config_file m"]
    remove_section_no_default [of "snd (read (config m) (config_file m))" name]
  by (auto simp: delete_connection_def save_config_def split: prod.splits option.splits)

lemma load_connection_no_default:
  "\<not> has_section (config m) ''DEFAULT'' \<Longrightarrow>
   \<not> has_section (config (snd (load_connection m name))) ''DEFAULT''"
  using read_no_default [of "config m" "config_file m"]
  by (auto simp: load_connection_def split: prod.splits option.splits sum.splits)

lemma get_connections_no_default:
  "\<not> has_section (config m) ''DEFAULT'' \<Longrightarrow>
   \<not> has_section (config (snd (get_connections m))) ''DEFAULT''"
  using read_no_default [of "config m" "config_file m"]
  by (auto simp: get_connections_def split: prod.splits option.splits)

text \<open>
  C5, as stated: the listing leaves out the reserved example section, and a store that
  was just initialised lists nothing. \<open>ensure_config_exists\<close> writes the example section
  \<^verbatim>\<open>Conexao_Exemplo\<close>, and \<open>get_connections\<close> filters the name \<^verbatim>\<open>DEFAULT\<close> only: the new store
  lists the example section.
\<close>

theorem get_connections_fresh_counterexample:
  "fst (get_connections (snd (ConnectionManager_init None))) = Inr [''Conexao_Exemplo''] \<and>
   fst (get_connections (snd (ConnectionManager_init None))) \<noteq> Inr []"
  by code_simp

text \<open>
  C5, amended: the names that \<open>get_connections\<close> returns never include the reserved
  default section \<^verbatim>\<open>DEFAULT\<close>, and on a store that was just initialised it returns, with no
  error, the sequence holding the one example section \<^verbatim>\<open>Conexao_Exemplo\<close>.
\<close>

theorem get_connections_excludes_default:
  "(fst (get_connections m) = Inr names \<longrightarrow> ''DEFAULT'' \<notin> set names) \<and>
   fst (get_connections (snd (ConnectionManager_init None))) = Inr [''Conexao_Exemplo'']"
proof
  show "fst (get_connections m) = Inr names \<longrightarrow> ''DEFAULT'' \<notin> set names"
    by (auto simp: get_connections_def split: prod.splits option.splits)
  show "fst (get_connections (snd (ConnectionManager_init None))) = Inr [''Conexao_Exemplo'']"
    by code_simp
qed

theorem get_connections_excludes_default_witness:
  "fst (get_connections \<lparr>config = \<lparr>defaults = [], sections = []\<rparr>,
      config_file = Some [(''DEFAULT'', [(''user'', ''root'')]),
        (''prod'', [(''host'', ''db''), (''password'', ''pw'')])]\<rparr>) = Inr [''prod''] \<and>
   ''DEFAULT'' \<notin> set [''prod'']"
  using get_connections_excludes_default
    [of "\<lparr>config = \<lparr>defaults = [], sections = []\<rparr>,
      config_file = Some [(''DEFAULT'', [(''user'', ''root'')]),
        (''prod'', [(''host'', ''db''), (''password'', ''pw'')])]\<rparr>" "[''prod'']"]
  by (simp add: get_connections_def read_def has_section_def DEFAULTSECT_def cursect_put_def)

text \<open>
  C6: every mutating call re-reads the file before it writes, so that a profile added to
  the file from outside survives \<open>save_connection\<close>. The source does not do this in
  \<open>save_connection\<close>: a store is initialised, the profile \<^verbatim>\<open>a\<close> is added to its file from
  outside, and after saving the profile \<^verbatim>\<open>b\<close> the file no longer holds \<^verbatim>\<open>a\<close>.
  \<open>delete_connection\<close>, which reads the file first, keeps it.
\<close>

theorem save_connection_loses_external_edit:
  "config_file (snd (save_connection
      ((snd (ConnectionManager_init None))
         \<lparr>config_file := Some
            [(''Conexao_Exemplo'', [(''host'', []), (''user'', []), (''password'', [])]),
             (''a'', [(''host'', ''h''), (''user'', ''u''), (''password'', ''p'')])]\<rparr>)
      ''b'' ''1'' ''2'' ''3'')) =
     Some [(''Conexao_Exemplo'', [(''host'', []), (''user'', []), (''password'', [])]),
       (''b'', [(''host'', ''1''), (''user'', ''2''), (''password'', ''3'')])] \<and>
   config_file (snd (delete_connection
      ((snd (ConnectionManager_init None))
         \<lparr>config_file := Some
            [(''Conexao_Exemplo'', [(''host'', []), (''user'', []), (''password'', [])]),
             (''a'', [(''host'', ''h''), (''user'', ''u''), (''password'', ''p'')])]\<rparr>)
      ''Conexao_Exemplo'')) =
     Some [(''a'', [(''host'', ''h''), (''user'', ''u''), (''password'', ''p'')])]"
  by code_simp

text \<open>
  C7: saving a profile and loading it returns the host, user and password that were
  saved, and loading a deleted profile returns \<^verbatim>\<open>None\<close>. The parser interpolates the values
  it returns and checks the ones it stores: the password \<^verbatim>\<open>50%%off\<close> is loaded as
  \<^verbatim>\<open>50%off\<close>, the password \<^verbatim>\<open>50%off\<close> makes \<open>save_connection\<close> raise \<^verbatim>\<open>ValueError\<close>, and the
  profile named \<^verbatim>\<open>DEFAULT\<close> is still loaded after it was deleted.
\<close>

theorem save_load_not_exact:
  "fst (load_connection (snd (save_connection (snd (ConnectionManager_init None))
      ''prod'' ''db'' ''root'' ''50%%off'')) ''prod'') =
     Inr (Some [(''host'', ''db''), (''user'', ''root''), (''password'', ''50%off'')]) \<and>
   fst (save_connection (snd (ConnectionManager_init None)) ''prod'' ''db'' ''root'' ''50%off'') =
     Some ValueError \<and>
   fst (load_connection (snd (delete_connection (snd (save_connection
      (snd (ConnectionManager_init None)) ''DEFAULT'' ''db'' ''root'' ''pw'')) ''DEFAULT''))
      ''DEFAULT'') =
     Inr (Some [(''host'', ''db''), (''user'', ''root''), (''password'', ''pw'')])"
  by code_simp

text \<open>
  C10, as stated: \<open>delete_connection\<close> with the name \<^verbatim>\<open>DEFAULT\<close> raises an exception. It
  is \<^verbatim>\<open>del config[name]\<close> that rejects the default section; the source calls
  \<^verbatim>\<open>remove_section\<close>, which does not: on a new store the call returns \<^verbatim>\<open>True\<close> and leaves the
  store as it was.
\<close>

theorem delete_default_counterexample:
  "delete_connection (snd (ConnectionManager_init None)) ''DEFAULT'' =
     (Inr True, snd (ConnectionManager_init None))"
  by code_simp

text \<open>
  C10, amended: \<open>delete_connection\<close> with the name \<^verbatim>\<open>DEFAULT\<close> raises no exception of its
  own. Once the file is read without error, the membership test holds for that name
  whatever the store contains, \<^verbatim>\<open>remove_section\<close> leaves the default section, and with it
  the whole parser, in place, the parser as read is written back to the file, and the
  call returns the boolean \<^verbatim>\<open>True\<close>.
\<close>

theorem delete_default_returns_true:
  assumes "\<not> has_section (config m) ''DEFAULT''"
    and "read (config m) (config_file m) = (None, cfg)"
  shows "delete_connection m ''DEFAULT'' =
    (Inr True, m\<lparr>config := cfg, config_file := Some (write_file cfg)\<rparr>)"
  using assms read_no_default [of "config m" "config_file m"]
  by (simp add: delete_connection_def contains_def DEFAULTSECT_def remove_section_def Let_def
      save_config_def)

theorem delete_default_returns_true_witness:
  "delete_connection
     \<lparr>config = \<lparr>defaults = [], sections = []\<rparr>,
      config_file = Some [(''DEFAULT'', [(''user'', ''root'')]),
        (''prod'', [(''host'', ''db''), (''password'', ''pw'')])]\<rparr> ''DEFAULT'' =
     (Inr True,
      \<lparr>config = \<lparr>defaults = [(''user'', ''root'')],
         sections = [(''prod'', [(''host'', ''db''), (''password'', ''pw'')])]\<rparr>,
       config_file = Some [(''DEFAULT'', [(''user'', ''root'')]),
         (''prod'', [(''host'', ''db''), (''password'', ''pw'')])]\<rparr>)"
proof -
  have n: "\<not> has_section (config \<lparr>config = \<lparr>defaults = [], sections = []\<rparr>,
      config_file = Some [(''DEFAULT'', [(''user'', ''root'')]),
        (''prod'', [(''host'', ''db''), (''password'', ''pw'')])]\<rparr>) ''DEFAULT''"
    by (simp add: has_section_def)
  have r: "read (config \<lparr>config = \<lparr>defaults = [], sections = []\<rparr>,
      config_file = Some [(''DEFAULT'', [(''user'', ''root'')]),
        (''prod'', [(''host'', ''db''), (''password'', ''pw'')])]\<rparr>)
     (config_file \<lparr>config = \<lparr>defaults = [], sections = []\<rparr>,
      config_file = Some [(''DEFAULT'', [(''user'', ''root'')]),
        (''prod'', [(''host'', ''db''), (''password'', ''pw'')])]\<rparr>) =
     (None, \<lparr>defaults = [(''user'', ''root'')],
         sections = [(''prod'', [(''host'', ''db''), (''password'', ''pw'')])]\<rparr>)"
    by (simp add: read_def has_section_def DEFAULTSECT_def cursect_put_def)
  show ?thesis
    using delete_default_returns_true [OF n r]
    by (simp add: write_file_def DEFAULTSECT_def)
qed

end
